theory Spec2Isabelle
  imports Main
begin

section \<open>The search-task pipeline of utils/engines.js\<close>

text \<open>
  The module runs one queued search task: it fetches the task and its image from the
  transient storage, adapts the image to the engine's upload limit, calls the engine's
  search function and reports a failure to the user. Asynchronous calls are awaited one
  after the other, so a run is a sequence of steps on an explicit state. A thrown error
  is the left summand of a result, a falsy (absent) value is \<open>None\<close>.
\<close>

subsection \<open>Errors\<close>

text \<open>
  An error object, as far as the module looks at it: \<open>err.name\<close> and \<open>err.message\<close>.
  \<open>class EngineError extends Error\<close> sets the name to the string EngineError; a plain
  \<open>new Error(msg)\<close> has the name Error.
\<close>

record js_error =
  name :: string
  message :: string

definition Error :: "string \<Rightarrow> js_error" where
  "Error msg = \<lparr>name = ''Error'', message = msg\<rparr>"

definition EngineError :: "string \<Rightarrow> js_error" where
  "EngineError msg = \<lparr>name = ''EngineError'', message = msg\<rparr>"

text \<open>
  A \<open>TypeError\<close> is raised by the host, not by the module. Its text differs from one
  browser to the next, so the host tells it for each kind of fault: a form value that is
  not a blob, a property read of \<open>null\<close>, a call of something that is not a function,
  an object that has no primitive value.
\<close>

datatype type_fault = NotABlob | ReadOfNull string | NotAFunction | NotPrimitive

definition TypeError :: "string \<Rightarrow> js_error" where
  "TypeError msg = \<lparr>name = ''TypeError'', message = msg\<rparr>"

text \<open>\<open>Error.prototype.toString\<close>, which \<open>console.log(err.toString())\<close> prints.\<close>

definition toString :: "js_error \<Rightarrow> string" where
  "toString err =
     (if name err = [] then message err
      else if message err = [] then name err
      else name err @ '': '' @ message err)"

subsection \<open>Data\<close>

type_synonym blob = string

type_synonym session = string

record image =
  imageDataUrl :: string
  imageFilename :: string
  imageType :: string
  imageSize :: nat
  imageBlob :: "blob option"

record search_spec =
  assetType :: string

record task =
  session :: session
  search :: search_spec
  imageId :: string

text \<open>
  The two messages the module fires on the extension's message bus:
  \<open>{id: 'notification', message, type}\<close> and \<open>{id: 'storageReceipt', storageIds}\<close>.
\<close>

datatype runtime_message =
    Notification string string
  | StorageReceipt "string list"

text \<open>
  The state of a run: the array \<open>storageIds\<close> that \<open>initSearch\<close> allocates and hands
  by reference to the search function and to \<open>sendReceipt\<close>, the messages fired so
  far (oldest first), and the lines written with \<open>console.log\<close>.
\<close>

record world =
  storageIds :: "string list"
  sent :: "runtime_message list"
  console :: "string list"

text \<open>
  A search function receives \<open>{session, search, image, storageIds}\<close>; the array is the
  one in the state, which it may change. The value it resolves with is dropped by
  \<open>initSearch\<close>.
\<close>

type_synonym searchFn =
  "session \<Rightarrow> search_spec \<Rightarrow> image \<Rightarrow> world \<Rightarrow> (js_error + unit) \<times> world"

subsection \<open>Collaborators\<close>

text \<open>
  The functions imported from utils/app and utils/common and the browser's lookups are not
  part of this module; a run is parameterised by them.
  \<^item> \<open>storageRequest\<close>: the answer of the bus to
    \<open>{id: 'storageRequest', asyncResponse: true, storageId}\<close> for the task;
  \<^item> \<open>sendLargeMessage\<close>: the same request for the image over the large-message channel,
    which may throw;
  \<^item> \<open>getMaxImageUploadSize engine target\<close>: a number, or nothing;
  \<^item> \<open>convertProcessedImage image newType maxSize setBlob\<close>: an image, nothing, or a
    thrown error;
  \<^item> \<open>getLargeImageMessage engine maxSize\<close>, \<open>dataUrlToBlob\<close>;
  \<^item> \<open>getMessage\<close>: \<open>browser.i18n.getMessage(messageName, substitutions)\<close>.
  A message handed to \<open>browser.runtime.sendMessage\<close> is recorded in \<open>sent\<close>; the bus
  delivers it.
\<close>

record env =
  storageRequest :: "string \<Rightarrow> task option"
  sendLargeMessage :: "string \<Rightarrow> js_error + image option"
  getMaxImageUploadSize :: "string \<Rightarrow> string option \<Rightarrow> nat option"
  convertProcessedImage :: "image \<Rightarrow> string \<Rightarrow> nat \<Rightarrow> bool \<Rightarrow> js_error + image option"
  getLargeImageMessage :: "string \<Rightarrow> nat \<Rightarrow> string"
  dataUrlToBlob :: "string \<Rightarrow> blob"
  getMessage :: "string option \<Rightarrow> string list \<Rightarrow> string"

subsection \<open>showEngineError\<close>

text \<open>
  \<open>!message\<close> holds for an absent and for an empty message; the catalogue is then asked
  for \<open>errorId\<close> (which may itself be absent) with the engine's display name.
\<close>

definition showEngineError ::
  "env \<Rightarrow> string option \<Rightarrow> string option \<Rightarrow> string \<Rightarrow> world \<Rightarrow> world" where
  "showEngineError E msg errorId engine w =
     (let msg' = (if msg = None \<or> msg = Some []
                  then getMessage E errorId [getMessage E (Some (''engineName_'' @ engine)) []]
                  else the msg)
      in w\<lparr>sent := sent w @ [Notification msg' (engine @ ''Error'')]\<rparr>)"

subsection \<open>sendReceipt\<close>

text \<open>The loop \<open>while (storageIds.length) storageIds.pop()\<close>.\<close>

function popAll :: "'a list \<Rightarrow> 'a list" where
  "popAll xs = (if length xs \<noteq> 0 then popAll (butlast xs) else xs)"
  by pat_completeness auto
termination
  by (relation "measure length") auto

declare popAll.simps [simp del]

definition sendReceipt :: "world \<Rightarrow> world" where
  "sendReceipt w =
     (if length (storageIds w) \<noteq> 0 then
        let keys = storageIds w;
            w' = w\<lparr>storageIds := popAll (storageIds w)\<rparr>
        in w'\<lparr>sent := sent w' @ [StorageReceipt keys]\<rparr>
      else w)"

subsection \<open>prepareImageForUpload\<close>

text \<open>
  \<open>if (maxSize)\<close> is false for an absent limit and for the number 0. The assignment to
  \<open>image.imageBlob\<close> is an update of the record that is returned.
\<close>

definition prepareImageForUpload ::
  "env \<Rightarrow> image \<Rightarrow> string \<Rightarrow> string option \<Rightarrow> string \<Rightarrow> bool \<Rightarrow> js_error + image" where
  "prepareImageForUpload E img engine target newType setBlob =
     (case getMaxImageUploadSize E engine target of
        None \<Rightarrow> Inr img
      | Some maxSize \<Rightarrow>
          if maxSize = 0 then Inr img
          else if imageSize img > maxSize then
            (case convertProcessedImage E img newType maxSize setBlob of
               Inl err \<Rightarrow> Inl err
             | Inr None \<Rightarrow> Inl (EngineError (getLargeImageMessage E engine maxSize))
             | Inr (Some converted) \<Rightarrow> Inr converted)
          else if setBlob then
            Inr (img\<lparr>imageBlob := Some (dataUrlToBlob E (imageDataUrl img))\<rparr>)
          else Inr img)"

subsection \<open>initSearch\<close>

text \<open>
  \<open>initSearch\<close> first awaits \<open>waitForDocumentLoad()\<close>; a run of the model starts when
  the document has loaded.

  The body of the \<open>try\<close> block, run on the state in which \<open>storageIds\<close> is
  \<open>[taskId, task.imageId]\<close>. \<open>prepareImageForUpload({image, engine})\<close> leaves the
  target absent, the new type empty and \<open>setBlob\<close> at its default, true.
\<close>

definition initSearch_try ::
  "env \<Rightarrow> searchFn \<Rightarrow> string \<Rightarrow> task \<Rightarrow> world \<Rightarrow> (js_error + unit) \<times> world" where
  "initSearch_try E searchFn engine task w =
     (case sendLargeMessage E (imageId task) of
        Inl err \<Rightarrow> (Inl err, w)
      | Inr (Some img) \<Rightarrow>
          (case (if assetType (search task) = ''image''
                 then prepareImageForUpload E img engine None [] True
                 else Inr img) of
             Inl err \<Rightarrow> (Inl err, w)
           | Inr img' \<Rightarrow> searchFn (session task) (search task) img' w)
      | Inr None \<Rightarrow>
          (Inr (),
           showEngineError E None (Some ''error_sessionExpiredEngine'') engine
             (sendReceipt w)))"

text \<open>The \<open>catch\<close> block.\<close>

definition initSearch_catch ::
  "env \<Rightarrow> string \<Rightarrow> js_error \<Rightarrow> world \<Rightarrow> (js_error + unit) \<times> world" where
  "initSearch_catch E engine err w =
     (let w1 = sendReceipt w;
          w2 = (if name err = ''EngineError''
                then showEngineError E (Some (message err)) None engine w1
                else showEngineError E None (Some ''error_engine'') engine w1);
          w3 = w2\<lparr>console := console w2 @ [toString err]\<rparr>
      in (Inl err, w3))"

definition initSearch ::
  "env \<Rightarrow> searchFn \<Rightarrow> string \<Rightarrow> string \<Rightarrow> world \<Rightarrow> (js_error + unit) \<times> world" where
  "initSearch E searchFn engine taskId w =
     (case storageRequest E taskId of
        Some task \<Rightarrow>
          (case initSearch_try E searchFn engine task
                  (w\<lparr>storageIds := [taskId, imageId task]\<rparr>) of
             (Inl err, w') \<Rightarrow> initSearch_catch E engine err w'
           | (Inr u, w') \<Rightarrow> (Inr u, w'))
      | None \<Rightarrow>
          (Inr (),
           showEngineError E None (Some ''error_sessionExpiredEngine'') engine w))"

subsection \<open>searchPinterest\<close>

text \<open>
  \<open>rsp.json()\<close> yields whatever JSON value the body holds, or throws. A number is kept
  as what this module can observe of it: whether it is zero (and so falsy) and the text
  that its conversion to a string gives. An object is the list of its properties, each key
  once.
\<close>

datatype json =
    JNull
  | JBool bool
  | JNumber bool string
  | JString string
  | JArray "json list"
  | JObject "(string \<times> json) list"

record http_response =
  rsp_status :: nat
  json :: "js_error + json"

datatype form_value = Text string | File blob string

record request =
  url :: string
  referrer :: string
  mode :: string
  method_field :: string
  body :: "(string \<times> form_value) list"

record result =
  page :: string
  image_field :: "json option"
  text_field :: "json option"

text \<open>The host of \<open>searchPinterest\<close>: \<open>fetch\<close> and the texts of its type errors.\<close>

record host =
  fetch :: "request \<Rightarrow> js_error + http_response"
  typeErrorMessage :: "type_fault \<Rightarrow> string"

text \<open>
  A value in a condition: \<open>undefined\<close> (no value), \<open>null\<close>, \<open>false\<close>, zero and the
  empty string are falsy, everything else is truthy, an empty array too.
\<close>

fun truthy :: "json option \<Rightarrow> bool" where
  "truthy None = False"
| "truthy (Some JNull) = False"
| "truthy (Some (JBool b)) = b"
| "truthy (Some (JNumber zero shown)) = (\<not> zero)"
| "truthy (Some (JString s)) = (s \<noteq> [])"
| "truthy (Some (JArray xs)) = True"
| "truthy (Some (JObject kvs)) = True"

text \<open>
  Reading one of the properties \<open>status\<close>, \<open>data\<close>, \<open>id\<close>, \<open>image_large_url\<close>,
  \<open>description\<close>: an object gives its own property or \<open>undefined\<close>, any other value
  but \<open>null\<close> gives \<open>undefined\<close>, and \<open>null\<close> throws.
\<close>

definition property :: "json \<Rightarrow> string \<Rightarrow> json option" where
  "property v k = (case v of JObject kvs \<Rightarrow> map_of kvs k | _ \<Rightarrow> None)"

definition getProp :: "host \<Rightarrow> json \<Rightarrow> string \<Rightarrow> js_error + json option" where
  "getProp H v k =
     (if v = JNull then Inl (TypeError (typeErrorMessage H (ReadOfNull k)))
      else Inr (property v k))"

text \<open>
  Whether \<open>v.length\<close> is truthy, for a truthy \<open>v\<close>: the length of an array or a string,
  the own property of an object, \<open>undefined\<close> for a boolean or a number.
\<close>

fun truthyLength :: "json \<Rightarrow> bool" where
  "truthyLength (JArray xs) = (length xs \<noteq> 0)"
| "truthyLength (JString s) = (length s \<noteq> 0)"
| "truthyLength (JObject kvs) = truthy (map_of kvs ''length'')"
| "truthyLength v = False"

text \<open>
  The conversion to a string in the template literal. An array joins its elements with
  commas, \<open>null\<close> elements as the empty string; an object is \<open>[object Object]\<close>, unless
  an own property hides \<open>toString\<close>, when it has no primitive value.
\<close>

fun toStringJS :: "host \<Rightarrow> json \<Rightarrow> js_error + string"
  and joinJS :: "host \<Rightarrow> json list \<Rightarrow> js_error + string" where
  "toStringJS H JNull = Inr ''null''"
| "toStringJS H (JBool b) = Inr (if b then ''true'' else ''false'')"
| "toStringJS H (JNumber zero shown) = Inr shown"
| "toStringJS H (JString s) = Inr s"
| "toStringJS H (JArray xs) = joinJS H xs"
| "toStringJS H (JObject kvs) =
     (if map_of kvs ''toString'' \<noteq> None
      then Inl (TypeError (typeErrorMessage H NotPrimitive))
      else Inr ''[object Object]'')"
| "joinJS H [] = Inr []"
| "joinJS H (x # xs) =
     (case (if x = JNull then Inr [] else toStringJS H x) of
        Inl err \<Rightarrow> Inl err
      | Inr s \<Rightarrow>
          if xs = [] then Inr s
          else (case joinJS H xs of
                  Inl err \<Rightarrow> Inl err
                | Inr t \<Rightarrow> Inr (s @ '','' @ t)))"

definition templateString :: "host \<Rightarrow> json option \<Rightarrow> js_error + string" where
  "templateString H v = (case v of None \<Rightarrow> Inr ''undefined'' | Some j \<Rightarrow> toStringJS H j)"

text \<open>The callback of \<open>response.data.map\<close>, and the map itself, item by item.\<close>

definition toResult :: "host \<Rightarrow> json \<Rightarrow> js_error + result" where
  "toResult H item =
     (case getProp H item ''id'' of
        Inl err \<Rightarrow> Inl err
      | Inr ident \<Rightarrow>
          (case templateString H ident of
             Inl err \<Rightarrow> Inl err
           | Inr s \<Rightarrow>
               (case getProp H item ''image_large_url'' of
                  Inl err \<Rightarrow> Inl err
                | Inr img_url \<Rightarrow>
                    (case getProp H item ''description'' of
                       Inl err \<Rightarrow> Inl err
                     | Inr d \<Rightarrow>
                         Inr \<lparr>page = ''https://pinterest.com/pin/'' @ s @ ''/'',
                              image_field = img_url,
                              text_field = d\<rparr>))))"

fun mapResults :: "host \<Rightarrow> json list \<Rightarrow> js_error + result list" where
  "mapResults H [] = Inr []"
| "mapResults H (item # items) =
     (case toResult H item of
        Inl err \<Rightarrow> Inl err
      | Inr r \<Rightarrow>
          (case mapResults H items of
             Inl err \<Rightarrow> Inl err
           | Inr rs \<Rightarrow> Inr (r # rs)))"

text \<open>
  The form is built first: \<open>data.append('image', image.imageBlob, image.imageFilename)\<close>
  with a file name takes a blob and throws a \<open>TypeError\<close> for an image that carries none,
  before anything is sent.
\<close>

definition pinterestRequest :: "blob \<Rightarrow> string \<Rightarrow> request" where
  "pinterestRequest imageBlob' imageFilename' =
     \<lparr>url = ''https://api.pinterest.com/v3/visual_search/extension/image/'',
      referrer = [],
      mode = ''cors'',
      method_field = ''PUT'',
      body = [(''image'', File imageBlob' imageFilename'),
              (''x'', Text ''0''),
              (''y'', Text ''0''),
              (''w'', Text ''1''),
              (''h'', Text ''1''),
              (''base_scheme'', Text ''https'')]\<rparr>"

definition searchPinterest ::
  "host \<Rightarrow> session \<Rightarrow> search_spec \<Rightarrow> image \<Rightarrow> js_error + result list" where
  "searchPinterest H sess srch img =
     (case imageBlob img of
        None \<Rightarrow> Inl (TypeError (typeErrorMessage H NotABlob))
      | Some blob \<Rightarrow>
          (case fetch H (pinterestRequest blob (imageFilename img)) of
             Inl err \<Rightarrow> Inl err
           | Inr rsp \<Rightarrow>
               (case json rsp of
                  Inl err \<Rightarrow> Inl err
                | Inr response \<Rightarrow>
                    if rsp_status rsp \<noteq> 200 then Inl (Error ''search failed'')
                    else
                      (case getProp H response ''status'' of
                         Inl err \<Rightarrow> Inl err
                       | Inr st \<Rightarrow>
                           if st \<noteq> Some (JString ''success'')
                           then Inl (Error ''search failed'')
                           else
                             (case getProp H response ''data'' of
                                Inl err \<Rightarrow> Inl err
                              | Inr d \<Rightarrow>
                                  if \<not> truthy d then Inl (Error ''search failed'')
                                  else if \<not> truthyLength (the d)
                                  then Inl (Error ''search failed'')
                                  else
                                    (case the d of
                                       JArray items \<Rightarrow> mapResults H items
                                     | _ \<Rightarrow>
                                         Inl (TypeError
                                                (typeErrorMessage H NotAFunction))))))))"

text \<open>
  A search function such as \<open>searchPinterest\<close>, which neither touches \<open>storageIds\<close> nor
  fires a message, as it is handed to \<open>initSearch\<close>.
\<close>

definition asSearchFn ::
  "(session \<Rightarrow> search_spec \<Rightarrow> image \<Rightarrow> js_error + 'r) \<Rightarrow> searchFn" where
  "asSearchFn f sess srch img w =
     (case f sess srch img of Inl err \<Rightarrow> (Inl err, w) | Inr results \<Rightarrow> (Inr (), w))"

section \<open>Observations on a run\<close>

text \<open>The key sets of the receipts in a sequence of fired messages, oldest first.\<close>

fun receipts :: "runtime_message list \<Rightarrow> string list list" where
  "receipts [] = []"
| "receipts (StorageReceipt keys # ms) = keys # receipts ms"
| "receipts (Notification msg ty # ms) = receipts ms"

text \<open>
  The search functions of the extension acknowledge an upload with
  \<open>sendReceipt(storageIds)\<close> and use the array for nothing else. As far as the array and
  the receipts on the bus go, such a function leaves the state as it is or as one call of
  \<open>sendReceipt\<close> leaves it.
\<close>

definition receiptDiscipline :: "searchFn \<Rightarrow> bool" where
  "receiptDiscipline searchFn \<longleftrightarrow>
     (\<forall>sess srch img v.
        let v' = snd (searchFn sess srch img v)
        in (storageIds v' = storageIds v \<and> receipts (sent v') = receipts (sent v)) \<or>
           (storageIds v' = storageIds (sendReceipt v) \<and>
            receipts (sent v') = receipts (sent (sendReceipt v))))"


section \<open>A scenario\<close>

text \<open>
  Task t1 refers to image i1, an image of 2 MB stored without a blob; the engine pinterest
  accepts 1 MB and the conversion brings the image down to 0.9 MB, with a blob when one is
  asked for. No limit is configured for any other engine. The catalogue answers with the
  id it is asked for, followed by the substitutions.
\<close>

definition scenarioTask :: task where
  "scenarioTask = \<lparr>session = ''{}'', search = \<lparr>assetType = ''image''\<rparr>, imageId = ''i1''\<rparr>"

definition scenarioImage :: image where
  "scenarioImage =
     \<lparr>imageDataUrl = ''data:image/png;base64,AAAA'', imageFilename = ''image.png'',
      imageType = ''image/png'', imageSize = 2000000, imageBlob = None\<rparr>"

definition scenarioEnv :: env where
  "scenarioEnv =
     \<lparr>storageRequest = (\<lambda>k. if k = ''t1'' then Some scenarioTask else None),
      sendLargeMessage = (\<lambda>k. if k = ''i1'' then Inr (Some scenarioImage) else Inr None),
      getMaxImageUploadSize =
        (\<lambda>engine target. if engine = ''pinterest'' then Some 1000000 else None),
      convertProcessedImage =
        (\<lambda>img newType maxSize setBlob.
           Inr (Some (img\<lparr>imageSize := 900000,
                          imageBlob := (if setBlob then Some ''converted blob''
                                        else imageBlob img)\<rparr>))),
      getLargeImageMessage = (\<lambda>engine maxSize. ''The image is too large for '' @ engine),
      dataUrlToBlob = (\<lambda>u. ''blob of '' @ u),
      getMessage =
        (\<lambda>k subs.
           (case k of None \<Rightarrow> ''undefined'' | Some k' \<Rightarrow> k') @
           (case subs of [] \<Rightarrow> [] | s # ss \<Rightarrow> '': '' @ concat subs))\<rparr>"

definition emptyWorld :: world where
  "emptyWorld = \<lparr>storageIds = [], sent = [], console = []\<rparr>"

definition convertedImage :: image where
  "convertedImage = scenarioImage\<lparr>imageSize := 900000, imageBlob := Some ''converted blob''\<rparr>"

definition pinItems :: "json list" where
  "pinItems =
     [JObject [(''id'', JString ''101''),
               (''image_large_url'', JString ''https://i.pinimg.com/a.jpg''),
               (''description'', JString ''first'')],
      JObject [(''id'', JString ''202''),
               (''image_large_url'', JString ''https://i.pinimg.com/b.jpg''),
               (''description'', JNull)]]"

definition successBody :: json where
  "successBody = JObject [(''status'', JString ''success''), (''data'', JArray pinItems)]"

definition hostAnswering :: "nat \<Rightarrow> js_error + json \<Rightarrow> host" where
  "hostAnswering code parsed =
     \<lparr>fetch = (\<lambda>req. Inr \<lparr>rsp_status = code, json = parsed\<rparr>),
      typeErrorMessage =
        (\<lambda>fault. case fault of
           NotABlob \<Rightarrow> ''parameter 2 is not of type Blob''
         | ReadOfNull k \<Rightarrow> ''Cannot read properties of null (reading '' @ k @ '')''
         | NotAFunction \<Rightarrow> ''response.data.map is not a function''
         | NotPrimitive \<Rightarrow> ''Cannot convert object to primitive value'')\<rparr>"

section \<open>Basic facts\<close>

lemma popAll_Nil: "popAll xs = []"
proof (induction xs rule: popAll.induct)
  case (1 xs)
  show ?case
  proof (cases "length xs \<noteq> 0")
    case True
    have "popAll xs = popAll (butlast xs)"
      using True by (subst popAll.simps) simp
    also have "\<dots> = []"
      using True by (rule "1.IH")
    finally show ?thesis .
  next
    case False
    then show ?thesis
      by (subst popAll.simps) simp
  qed
qed

lemma sendReceipt_eq:
  "sendReceipt w =
     (if storageIds w = [] then w
      else w\<lparr>storageIds := [], sent := sent w @ [StorageReceipt (storageIds w)]\<rparr>)"
  by (simp add: sendReceipt_def popAll_Nil Let_def)

lemma showEngineError_eq:
  "showEngineError E msg errorId engine w =
     w\<lparr>sent := sent w @
        [Notification
           (case msg of
              None \<Rightarrow> getMessage E errorId [getMessage E (Some (''engineName_'' @ engine)) []]
            | Some m \<Rightarrow>
                if m = []
                then getMessage E errorId [getMessage E (Some (''engineName_'' @ engine)) []]
                else m)
           (engine @ ''Error'')]\<rparr>"
  by (cases msg) (simp_all add: showEngineError_def)

lemma receipts_append: "receipts (xs @ ys) = receipts xs @ receipts ys"
  by (induction xs rule: receipts.induct) simp_all

lemma hostAnswering_fetch:
  "fetch (hostAnswering code parsed) req = Inr \<lparr>rsp_status = code, json = parsed\<rparr>"
  by (simp add: hostAnswering_def)

lemma hostAnswering_message:
  "typeErrorMessage (hostAnswering code parsed) fault =
     (case fault of
        NotABlob \<Rightarrow> ''parameter 2 is not of type Blob''
      | ReadOfNull k \<Rightarrow> ''Cannot read properties of null (reading '' @ k @ '')''
      | NotAFunction \<Rightarrow> ''response.data.map is not a function''
      | NotPrimitive \<Rightarrow> ''Cannot convert object to primitive value'')"
  by (simp add: hostAnswering_def)


section \<open>prepareImageForUpload\<close>

text \<open>
  Over a configured limit the outcome is decided by the conversion alone, whatever it is:
  its error, the typed error when it yields nothing, or the image it yields.
\<close>

lemma prepareImageForUpload_converts:
  assumes "getMaxImageUploadSize E engine target = Some maxSize"
    and "maxSize \<noteq> 0"
    and "maxSize < imageSize img"
  shows "prepareImageForUpload E img engine target newType setBlob =
           (case convertProcessedImage E img newType maxSize setBlob of
              Inl err \<Rightarrow> Inl err
            | Inr None \<Rightarrow> Inl (EngineError (getLargeImageMessage E engine maxSize))
            | Inr (Some converted) \<Rightarrow> Inr converted)"
  using assms by (simp add: prepareImageForUpload_def)

text \<open>
  Claim C1, as the code has it. For an image over the configured limit
  \<open>prepareImageForUpload\<close> returns the image the conversion yields, whatever its size (a
  result that keeps the limit is never the image given); it throws an error named
  EngineError with the message \<open>getLargeImageMessage(engine, maxSize)\<close> when the conversion
  yields nothing; and an error of the conversion is thrown on as it is.
\<close>

theorem prepareImageForUpload_over_limit:
  assumes "getMaxImageUploadSize E engine target = Some maxSize"
    and "maxSize \<noteq> 0"
    and "maxSize < imageSize img"
  shows "(convertProcessedImage E img newType maxSize setBlob = Inr (Some converted) \<longrightarrow>
            prepareImageForUpload E img engine target newType setBlob = Inr converted \<and>
            (imageSize converted \<le> maxSize \<longrightarrow> converted \<noteq> img)) \<and>
         (convertProcessedImage E img newType maxSize setBlob = Inr None \<longrightarrow>
            prepareImageForUpload E img engine target newType setBlob =
              Inl \<lparr>name = ''EngineError'', message = getLargeImageMessage E engine maxSize\<rparr>) \<and>
         (convertProcessedImage E img newType maxSize setBlob = Inl err \<longrightarrow>
            prepareImageForUpload E img engine target newType setBlob = Inl err)"
proof -
  note run = prepareImageForUpload_converts [OF assms, of newType setBlob]
  have "converted \<noteq> img" if "imageSize converted \<le> maxSize"
    using that assms(3) by auto
  then show ?thesis
    unfolding run by (simp add: EngineError_def)
qed

theorem prepareImageForUpload_over_limit_witness:
  "getMaxImageUploadSize scenarioEnv ''pinterest'' None = Some 1000000 \<and>
   (1000000::nat) \<noteq> 0 \<and>
   1000000 < imageSize scenarioImage \<and>
   convertProcessedImage scenarioEnv scenarioImage [] 1000000 True = Inr (Some convertedImage) \<and>
   prepareImageForUpload scenarioEnv scenarioImage ''pinterest'' None [] True =
     Inr convertedImage \<and>
   imageSize convertedImage \<le> 1000000 \<and>
   convertedImage \<noteq> scenarioImage \<and>
   prepareImageForUpload
     (scenarioEnv\<lparr>convertProcessedImage := \<lambda>img newType maxSize setBlob. Inr None\<rparr>)
     scenarioImage ''pinterest'' None [] True =
     Inl \<lparr>name = ''EngineError'', message = ''The image is too large for pinterest''\<rparr> \<and>
   prepareImageForUpload
     (scenarioEnv\<lparr>convertProcessedImage :=
        \<lambda>img newType maxSize setBlob. Inl \<lparr>name = ''Error'', message = ''canvas is tainted''\<rparr>\<rparr>)
     scenarioImage ''pinterest'' None [] True =
     Inl \<lparr>name = ''Error'', message = ''canvas is tainted''\<rparr>"
proof -
  let ?none = "scenarioEnv\<lparr>convertProcessedImage := \<lambda>img newType maxSize setBlob. Inr None\<rparr>"
  let ?e = "\<lparr>name = ''Error'', message = ''canvas is tainted''\<rparr>"
  let ?throws = "scenarioEnv\<lparr>convertProcessedImage := \<lambda>img newType maxSize setBlob. Inl ?e\<rparr>"
  have lim: "getMaxImageUploadSize scenarioEnv ''pinterest'' None = Some 1000000"
    and lim_none: "getMaxImageUploadSize ?none ''pinterest'' None = Some 1000000"
    and lim_throws: "getMaxImageUploadSize ?throws ''pinterest'' None = Some 1000000"
    by (simp_all add: scenarioEnv_def)
  have pos: "(1000000::nat) \<noteq> 0" by simp
  have over: "1000000 < imageSize scenarioImage"
    by (simp add: scenarioImage_def)
  have conv: "convertProcessedImage scenarioEnv scenarioImage [] 1000000 True =
      Inr (Some convertedImage)"
    by (simp add: scenarioEnv_def convertedImage_def)
  have small: "imageSize convertedImage \<le> 1000000"
    by (simp add: convertedImage_def)
  from prepareImageForUpload_over_limit
         [OF lim pos over, where newType = "[]" and setBlob = True and converted = convertedImage]
       prepareImageForUpload_over_limit
         [OF lim_none pos over, where newType = "[]" and setBlob = True]
       prepareImageForUpload_over_limit
         [OF lim_throws pos over, where newType = "[]" and setBlob = True and err = ?e]
       lim over conv small
  show ?thesis
    by (simp add: scenarioEnv_def)
qed

text \<open>
  The size is left to the conversion: when the conversion hands the image back, the image
  over the limit is returned unchanged.
\<close>

theorem prepareImageForUpload_oversized_counterexample:
  "getMaxImageUploadSize
     (scenarioEnv\<lparr>convertProcessedImage := \<lambda>img newType maxSize setBlob. Inr (Some img)\<rparr>)
     ''pinterest'' None = Some 1000000 \<and>
   1000000 < imageSize scenarioImage \<and>
   prepareImageForUpload
     (scenarioEnv\<lparr>convertProcessedImage := \<lambda>img newType maxSize setBlob. Inr (Some img)\<rparr>)
     scenarioImage ''pinterest'' None [] True = Inr scenarioImage"
  by (simp add: prepareImageForUpload_def scenarioEnv_def scenarioImage_def)


text \<open>
  Claim C7. For an image at or under the configured limit \<open>prepareImageForUpload\<close> returns
  the image it was given: data URL, file name, type and size are unchanged, and the blob is
  set from the data URL exactly when \<open>setBlob\<close> is requested.
\<close>

theorem prepareImageForUpload_under_limit:
  assumes "getMaxImageUploadSize E engine target = Some maxSize"
    and "maxSize \<noteq> 0"
    and "imageSize img \<le> maxSize"
  shows "prepareImageForUpload E img engine target newType setBlob =
           Inr (if setBlob
                then img\<lparr>imageBlob := Some (dataUrlToBlob E (imageDataUrl img))\<rparr>
                else img)"
  using assms by (simp add: prepareImageForUpload_def)

theorem prepareImageForUpload_under_limit_witness:
  "getMaxImageUploadSize scenarioEnv ''pinterest'' None = Some 1000000 \<and>
   (1000000::nat) \<noteq> 0 \<and>
   imageSize (scenarioImage\<lparr>imageSize := 1000000\<rparr>) \<le> 1000000 \<and>
   prepareImageForUpload scenarioEnv (scenarioImage\<lparr>imageSize := 1000000\<rparr>)
     ''pinterest'' None [] True =
     Inr \<lparr>imageDataUrl = ''data:image/png;base64,AAAA'', imageFilename = ''image.png'',
          imageType = ''image/png'', imageSize = 1000000,
          imageBlob = Some ''blob of data:image/png;base64,AAAA''\<rparr>"
  using prepareImageForUpload_under_limit
    [of scenarioEnv "''pinterest''" None 1000000 "scenarioImage\<lparr>imageSize := 1000000\<rparr>"
        "[]" True]
  by (simp add: scenarioEnv_def scenarioImage_def)

text \<open>
  Without a configured limit (the lookup yields nothing, or 0) the image is returned as it
  was given.
\<close>

lemma prepareImageForUpload_falsy_limit:
  assumes "getMaxImageUploadSize E engine target = None \<or>
           getMaxImageUploadSize E engine target = Some 0"
  shows "prepareImageForUpload E img engine target newType setBlob = Inr img"
  using assms by (auto simp: prepareImageForUpload_def)

text \<open>
  Claim C8, at an image stored without a blob and an engine without a limit, \<open>setBlob\<close>
  requested: the image comes back without a blob, where the claim has the blob set from the
  data URL. The branch for an image under a limit does set it, for the same image.
  \<open>searchPinterest\<close> cannot upload the image that comes back, and a run of \<open>initSearch\<close>
  ends in the \<open>catch\<close> block.
\<close>

theorem prepareImageForUpload_no_limit_no_blob:
  "getMaxImageUploadSize scenarioEnv ''bing'' None = None \<and>
   imageBlob scenarioImage = None \<and>
   prepareImageForUpload scenarioEnv scenarioImage ''bing'' None [] True = Inr scenarioImage \<and>
   prepareImageForUpload scenarioEnv scenarioImage ''bing'' None [] True \<noteq>
     Inr (scenarioImage
            \<lparr>imageBlob := Some (dataUrlToBlob scenarioEnv (imageDataUrl scenarioImage))\<rparr>) \<and>
   prepareImageForUpload scenarioEnv (scenarioImage\<lparr>imageSize := 1000000\<rparr>)
     ''pinterest'' None [] True =
     Inr (scenarioImage
            \<lparr>imageSize := 1000000,
              imageBlob := Some (dataUrlToBlob scenarioEnv (imageDataUrl scenarioImage))\<rparr>) \<and>
   searchPinterest (hostAnswering 200 (Inr successBody)) ''{}'' \<lparr>assetType = ''image''\<rparr>
     scenarioImage =
     Inl \<lparr>name = ''TypeError'',
          message = typeErrorMessage (hostAnswering 200 (Inr successBody)) NotABlob\<rparr> \<and>
   initSearch scenarioEnv (asSearchFn (searchPinterest (hostAnswering 200 (Inr successBody))))
     ''bing'' ''t1'' emptyWorld =
     (Inl \<lparr>name = ''TypeError'',
           message = typeErrorMessage (hostAnswering 200 (Inr successBody)) NotABlob\<rparr>,
      \<lparr>storageIds = [],
       sent = [StorageReceipt [''t1'', ''i1''],
               Notification ''error_engine: engineName_bing'' ''bingError''],
       console =
         [''TypeError: '' @ typeErrorMessage (hostAnswering 200 (Inr successBody)) NotABlob]\<rparr>)"
proof -
  let ?H = "hostAnswering 200 (Inr successBody)"
  have lim: "getMaxImageUploadSize scenarioEnv ''bing'' None = None"
    by (simp add: scenarioEnv_def)
  have blob: "imageBlob scenarioImage = None"
    by (simp add: scenarioImage_def)
  have prep: "prepareImageForUpload scenarioEnv scenarioImage ''bing'' None [] True =
      Inr scenarioImage"
    using lim by (simp add: prepareImageForUpload_def)
  have sibling: "prepareImageForUpload scenarioEnv (scenarioImage\<lparr>imageSize := 1000000\<rparr>)
      ''pinterest'' None [] True =
      Inr (scenarioImage
             \<lparr>imageSize := 1000000,
               imageBlob := Some (dataUrlToBlob scenarioEnv (imageDataUrl scenarioImage))\<rparr>)"
    by (simp add: prepareImageForUpload_def scenarioEnv_def scenarioImage_def)
  have search: "searchPinterest ?H s q scenarioImage =
      Inl \<lparr>name = ''TypeError'', message = ''parameter 2 is not of type Blob''\<rparr>" for s q
    using blob by (simp add: searchPinterest_def hostAnswering_message TypeError_def)
  have run: "initSearch scenarioEnv (asSearchFn (searchPinterest ?H)) ''bing'' ''t1'' emptyWorld =
      (Inl \<lparr>name = ''TypeError'', message = ''parameter 2 is not of type Blob''\<rparr>,
       \<lparr>storageIds = [],
        sent = [StorageReceipt [''t1'', ''i1''],
                Notification ''error_engine: engineName_bing'' ''bingError''],
        console = [''TypeError: parameter 2 is not of type Blob'']\<rparr>)"
  proof -
    let ?v = "emptyWorld\<lparr>storageIds := [''t1'', imageId scenarioTask]\<rparr>"
    have t: "storageRequest scenarioEnv ''t1'' = Some scenarioTask"
      and i: "sendLargeMessage scenarioEnv (imageId scenarioTask) = Inr (Some scenarioImage)"
      and a: "assetType (search scenarioTask) = ''image''"
      by (simp_all add: scenarioEnv_def scenarioTask_def)
    have "initSearch_try scenarioEnv (asSearchFn (searchPinterest ?H)) ''bing'' scenarioTask ?v =
        (Inl \<lparr>name = ''TypeError'', message = ''parameter 2 is not of type Blob''\<rparr>, ?v)"
      using i a prep by (simp add: initSearch_try_def asSearchFn_def search)
    with t show ?thesis
      by (simp add: initSearch_def initSearch_catch_def showEngineError_eq sendReceipt_eq
            toString_def emptyWorld_def Let_def)
         (simp add: scenarioEnv_def scenarioTask_def)
  qed
  from lim blob prep sibling search [of "''{}''" "\<lparr>assetType = ''image''\<rparr>"] run show ?thesis
    by (simp add: scenarioImage_def hostAnswering_message)
qed


section \<open>searchPinterest\<close>












text \<open>
  Claim C10. The body is parsed before the HTTP status is looked at: once the request is
  sent and answered, an error of \<open>rsp.json()\<close> is the error \<open>searchPinterest\<close> throws,
  whatever the status is, so the error search failed arises only for a body that has been
  parsed.
\<close>

theorem searchPinterest_parse_error:
  assumes "imageBlob img = Some blob"
    and "fetch H (pinterestRequest blob (imageFilename img)) = Inr rsp"
    and "json rsp = Inl err"
  shows "searchPinterest H sess srch img = Inl err \<and>
         (err \<noteq> \<lparr>name = ''Error'', message = ''search failed''\<rparr> \<longrightarrow>
          searchPinterest H sess srch img \<noteq> Inl \<lparr>name = ''Error'', message = ''search failed''\<rparr>)"
  using assms by (simp add: searchPinterest_def)

theorem searchPinterest_parse_error_witness:
  "imageBlob convertedImage = Some ''converted blob'' \<and>
   fetch (hostAnswering 500 (Inl \<lparr>name = ''SyntaxError'', message = ''Unexpected token <''\<rparr>))
     (pinterestRequest ''converted blob'' (imageFilename convertedImage)) =
     Inr \<lparr>rsp_status = 500,
          json = Inl \<lparr>name = ''SyntaxError'', message = ''Unexpected token <''\<rparr>\<rparr> \<and>
   searchPinterest (hostAnswering 500 (Inl \<lparr>name = ''SyntaxError'', message = ''Unexpected token <''\<rparr>))
     ''{}'' \<lparr>assetType = ''image''\<rparr> convertedImage =
     Inl \<lparr>name = ''SyntaxError'', message = ''Unexpected token <''\<rparr> \<and>
   searchPinterest (hostAnswering 200 (Inl \<lparr>name = ''SyntaxError'', message = ''Unexpected token <''\<rparr>))
     ''{}'' \<lparr>assetType = ''image''\<rparr> convertedImage =
     Inl \<lparr>name = ''SyntaxError'', message = ''Unexpected token <''\<rparr> \<and>
   searchPinterest (hostAnswering 500 (Inl \<lparr>name = ''SyntaxError'', message = ''Unexpected token <''\<rparr>))
     ''{}'' \<lparr>assetType = ''image''\<rparr> convertedImage \<noteq>
     Inl \<lparr>name = ''Error'', message = ''search failed''\<rparr>"
proof -
  let ?e = "\<lparr>name = ''SyntaxError'', message = ''Unexpected token <''\<rparr>"
  have blob: "imageBlob convertedImage = Some ''converted blob''"
    by (simp add: convertedImage_def)
  have inst: "searchPinterest (hostAnswering code (Inl ?e)) ''{}'' \<lparr>assetType = ''image''\<rparr>
        convertedImage = Inl ?e \<and>
      searchPinterest (hostAnswering code (Inl ?e)) ''{}'' \<lparr>assetType = ''image''\<rparr>
        convertedImage \<noteq> Inl \<lparr>name = ''Error'', message = ''search failed''\<rparr>" for code
    using searchPinterest_parse_error
      [where H = "hostAnswering code (Inl ?e)" and img = convertedImage
         and blob = "''converted blob''" and rsp = "\<lparr>rsp_status = code, json = Inl ?e\<rparr>"
         and err = ?e and sess = "''{}''" and srch = "\<lparr>assetType = ''image''\<rparr>",
         OF blob hostAnswering_fetch]
    by simp
  from blob inst [of 500] inst [of 200] show ?thesis
    by (simp add: hostAnswering_fetch)
qed


section \<open>initSearch\<close>

text \<open>
  Claim C3. When the task lookup or the image lookup yields no record, \<open>initSearch\<close> fires
  exactly one notification, the session-expired message of the engine (after the receipt,
  when it is the image that is missing), returns without an error, and the outcome does not
  depend on the search function, which is not called.
\<close>

theorem initSearch_session_expired:
  "(storageRequest E taskId = None \<longrightarrow>
      initSearch E searchFn engine taskId w =
        (Inr (),
         w\<lparr>sent := sent w @
            [Notification
               (getMessage E (Some ''error_sessionExpiredEngine'')
                  [getMessage E (Some (''engineName_'' @ engine)) []])
               (engine @ ''Error'')]\<rparr>)) \<and>
   (storageRequest E taskId = Some task \<and> sendLargeMessage E (imageId task) = Inr None \<longrightarrow>
      initSearch E searchFn engine taskId w =
        (Inr (),
         w\<lparr>storageIds := [],
           sent := sent w @
            [StorageReceipt [taskId, imageId task],
             Notification
               (getMessage E (Some ''error_sessionExpiredEngine'')
                  [getMessage E (Some (''engineName_'' @ engine)) []])
               (engine @ ''Error'')]\<rparr>)) \<and>
   (storageRequest E taskId = None \<or>
    (storageRequest E taskId = Some task \<and> sendLargeMessage E (imageId task) = Inr None) \<longrightarrow>
      initSearch E searchFn engine taskId w = initSearch E searchFn' engine taskId w)"
proof -
  let ?expired =
    "Notification
       (getMessage E (Some ''error_sessionExpiredEngine'')
          [getMessage E (Some (''engineName_'' @ engine)) []])
       (engine @ ''Error'')"
  have no_task: "initSearch E f engine taskId w = (Inr (), w\<lparr>sent := sent w @ [?expired]\<rparr>)"
    if "storageRequest E taskId = None" for f
    using that by (simp add: initSearch_def showEngineError_eq)
  have no_image: "initSearch E f engine taskId w =
      (Inr (),
       w\<lparr>storageIds := [], sent := sent w @ [StorageReceipt [taskId, imageId task], ?expired]\<rparr>)"
    if "storageRequest E taskId = Some task" "sendLargeMessage E (imageId task) = Inr None" for f
  proof -
    from that(2)
    have "initSearch_try E f engine task (w\<lparr>storageIds := [taskId, imageId task]\<rparr>) =
        (Inr (),
         showEngineError E None (Some ''error_sessionExpiredEngine'') engine
           (sendReceipt (w\<lparr>storageIds := [taskId, imageId task]\<rparr>)))"
      by (simp add: initSearch_try_def)
    with that(1) show ?thesis
      by (simp add: initSearch_def showEngineError_eq sendReceipt_eq)
  qed
  from no_task [of searchFn] no_task [of searchFn'] no_image [of searchFn] no_image [of searchFn']
  show ?thesis
    by auto
qed

theorem initSearch_session_expired_witness:
  "storageRequest scenarioEnv ''t2'' = None \<and>
   initSearch scenarioEnv (\<lambda>sess srch img v. (Inl (Error ''upload failed''), sendReceipt v))
     ''pinterest'' ''t2'' emptyWorld =
     (Inr (),
      emptyWorld\<lparr>sent :=
        [Notification ''error_sessionExpiredEngine: engineName_pinterest'' ''pinterestError'']\<rparr>) \<and>
   storageRequest (scenarioEnv\<lparr>sendLargeMessage := \<lambda>k. Inr None\<rparr>) ''t1'' = Some scenarioTask \<and>
   sendLargeMessage (scenarioEnv\<lparr>sendLargeMessage := \<lambda>k. Inr None\<rparr>) (imageId scenarioTask) =
     Inr None \<and>
   initSearch (scenarioEnv\<lparr>sendLargeMessage := \<lambda>k. Inr None\<rparr>)
     (\<lambda>sess srch img v. (Inl (Error ''upload failed''), sendReceipt v))
     ''pinterest'' ''t1'' emptyWorld =
     (Inr (),
      emptyWorld\<lparr>sent :=
        [StorageReceipt [''t1'', ''i1''],
         Notification ''error_sessionExpiredEngine: engineName_pinterest'' ''pinterestError'']\<rparr>)"
  using
    initSearch_session_expired
      [where E = scenarioEnv and taskId = "''t2''" and engine = "''pinterest''"
         and w = emptyWorld and task = scenarioTask
         and searchFn = "\<lambda>sess srch img v. (Inl (Error ''upload failed''), sendReceipt v)"
         and searchFn' = "\<lambda>sess srch img v. (Inr (), v)"]
    initSearch_session_expired
      [where E = "scenarioEnv\<lparr>sendLargeMessage := \<lambda>k. Inr None\<rparr>" and taskId = "''t1''"
         and engine = "''pinterest''" and w = emptyWorld and task = scenarioTask
         and searchFn = "\<lambda>sess srch img v. (Inl (Error ''upload failed''), sendReceipt v)"
         and searchFn' = "\<lambda>sess srch img v. (Inr (), v)"]
  by (simp add: scenarioEnv_def scenarioTask_def emptyWorld_def)






text \<open>
  Claim C9. When the task and the image are present and the search function resolves,
  \<open>initSearch\<close> ends in the state the search function left: it fires no receipt (and
  nothing else) of its own. When the task is missing no receipt is fired either; receipts
  come from the \<open>catch\<close> block and from the branch for a missing image.
\<close>

theorem initSearch_success_no_receipt:
  "(storageRequest E taskId = Some task \<and>
    sendLargeMessage E (imageId task) = Inr (Some img) \<and>
    (if assetType (search task) = ''image''
     then prepareImageForUpload E img engine None [] True
     else Inr img) = Inr img' \<and>
    searchFn (session task) (search task) img' (w\<lparr>storageIds := [taskId, imageId task]\<rparr>) =
      (Inr u, w') \<longrightarrow>
    initSearch E searchFn engine taskId w = (Inr u, w')) \<and>
   (storageRequest E taskId = None \<longrightarrow>
    receipts (sent (snd (initSearch E searchFn engine taskId w))) = receipts (sent w))"
  by (auto simp: initSearch_def initSearch_try_def showEngineError_eq receipts_append
           split: sum.splits)

theorem initSearch_success_no_receipt_witness:
  "storageRequest scenarioEnv ''t1'' = Some scenarioTask \<and>
   sendLargeMessage scenarioEnv (imageId scenarioTask) = Inr (Some scenarioImage) \<and>
   prepareImageForUpload scenarioEnv scenarioImage ''pinterest'' None [] True =
     Inr convertedImage \<and>
   imageBlob convertedImage = Some ''converted blob'' \<and>
   asSearchFn (searchPinterest (hostAnswering 200 (Inr successBody)))
     (session scenarioTask) (search scenarioTask) convertedImage
     (emptyWorld\<lparr>storageIds := [''t1'', ''i1'']\<rparr>) =
     (Inr (), emptyWorld\<lparr>storageIds := [''t1'', ''i1'']\<rparr>) \<and>
   initSearch scenarioEnv (asSearchFn (searchPinterest (hostAnswering 200 (Inr successBody))))
     ''pinterest'' ''t1'' emptyWorld = (Inr (), emptyWorld\<lparr>storageIds := [''t1'', ''i1'']\<rparr>) \<and>
   storageRequest scenarioEnv ''t2'' = None \<and>
   receipts (sent (snd (initSearch scenarioEnv
     (asSearchFn (searchPinterest (hostAnswering 200 (Inr successBody))))
     ''pinterest'' ''t2'' emptyWorld))) = []"
proof -
  let ?f = "asSearchFn (searchPinterest (hostAnswering 200 (Inr successBody)))"
  let ?v = "emptyWorld\<lparr>storageIds := [''t1'', ''i1'']\<rparr>"
  have t: "storageRequest scenarioEnv ''t1'' = Some scenarioTask"
    and n: "storageRequest scenarioEnv ''t2'' = None"
    and i: "sendLargeMessage scenarioEnv (imageId scenarioTask) = Inr (Some scenarioImage)"
    and a: "assetType (search scenarioTask) = ''image''"
    and k: "imageId scenarioTask = ''i1''"
    by (simp_all add: scenarioEnv_def scenarioTask_def)
  have p: "prepareImageForUpload scenarioEnv scenarioImage ''pinterest'' None [] True =
      Inr convertedImage"
    by (simp add: prepareImageForUpload_def scenarioEnv_def scenarioImage_def convertedImage_def)
  have b: "imageBlob convertedImage = Some ''converted blob''"
    by (simp add: convertedImage_def)
  have s: "?f (session scenarioTask) (search scenarioTask) convertedImage ?v = (Inr (), ?v)"
    using b
    by (simp add: asSearchFn_def searchPinterest_def getProp_def property_def toResult_def
          templateString_def hostAnswering_fetch successBody_def pinItems_def)
  from initSearch_success_no_receipt
         [where E = scenarioEnv and taskId = "''t1''" and task = scenarioTask
            and img = scenarioImage and engine = "''pinterest''" and img' = convertedImage
            and searchFn = ?f and w = emptyWorld and u = "()" and w' = ?v]
       initSearch_success_no_receipt
         [where E = scenarioEnv and taskId = "''t2''" and task = scenarioTask
            and img = scenarioImage and engine = "''pinterest''" and img' = convertedImage
            and searchFn = ?f and w = emptyWorld and u = "()" and w' = ?v]
       t n i a k p b s
  show ?thesis
    by (simp add: emptyWorld_def)
qed


section \<open>sendReceipt\<close>

lemma receiptDiscipline_call:
  assumes "receiptDiscipline searchFn"
    and "searchFn sess srch img v = (r, v')"
  shows "(storageIds v' = storageIds v \<and> receipts (sent v') = receipts (sent v)) \<or>
         (storageIds v' = [] \<and>
          receipts (sent v') =
            receipts (sent v) @ (if storageIds v = [] then [] else [storageIds v]))"
proof -
  from assms(1) have
    "(storageIds (snd (searchFn sess srch img v)) = storageIds v \<and>
      receipts (sent (snd (searchFn sess srch img v))) = receipts (sent v)) \<or>
     (storageIds (snd (searchFn sess srch img v)) = storageIds (sendReceipt v) \<and>
      receipts (sent (snd (searchFn sess srch img v))) = receipts (sent (sendReceipt v)))"
    unfolding receiptDiscipline_def Let_def by blast
  then show ?thesis
    using assms(2) by (auto simp: sendReceipt_eq receipts_append split: if_splits)
qed

lemma initSearch_try_keys:
  assumes "receiptDiscipline searchFn"
    and "initSearch_try E searchFn engine task v = (r, v')"
    and "storageIds v = keys" and "keys \<noteq> []"
  shows "(storageIds v' = keys \<and> receipts (sent v') = receipts (sent v)) \<or>
         (storageIds v' = [] \<and> receipts (sent v') = receipts (sent v) @ [keys])"
proof (cases "sendLargeMessage E (imageId task)")
  case (Inl err)
  with assms show ?thesis by (simp add: initSearch_try_def)
next
  case (Inr found)
  show ?thesis
  proof (cases found)
    case None
    with Inr assms show ?thesis
      by (auto simp: initSearch_try_def showEngineError_eq sendReceipt_eq receipts_append)
  next
    case (Some img)
    show ?thesis
    proof (cases "if assetType (search task) = ''image''
                  then prepareImageForUpload E img engine None [] True else Inr img")
      case (Inl err)
      with Inr Some assms show ?thesis by (simp add: initSearch_try_def)
    next
      case adapted: (Inr img')
      with Inr Some assms(2)
      have "searchFn (session task) (search task) img' v = (r, v')"
        by (simp add: initSearch_try_def)
      from receiptDiscipline_call [OF assms(1) this] assms(3,4) show ?thesis by auto
    qed
  qed
qed

lemma initSearch_receipts:
  assumes "receiptDiscipline searchFn"
    and "storageRequest E taskId = Some task"
  shows "receipts (sent (snd (initSearch E searchFn engine taskId w))) = receipts (sent w) \<or>
         receipts (sent (snd (initSearch E searchFn engine taskId w))) =
           receipts (sent w) @ [[taskId, imageId task]]"
proof -
  let ?v = "w\<lparr>storageIds := [taskId, imageId task]\<rparr>"
  obtain r v' where run: "initSearch_try E searchFn engine task ?v = (r, v')"
    by (cases "initSearch_try E searchFn engine task ?v") blast
  have keys: "(storageIds v' = [taskId, imageId task] \<and> receipts (sent v') = receipts (sent ?v)) \<or>
              (storageIds v' = [] \<and>
               receipts (sent v') = receipts (sent ?v) @ [[taskId, imageId task]])"
    by (rule initSearch_try_keys [OF assms(1) run]) simp_all
  show ?thesis
  proof (cases r)
    case (Inl err)
    with run assms(2) keys show ?thesis
      by (auto simp: initSearch_def initSearch_catch_def showEngineError_eq sendReceipt_eq
            receipts_append Let_def)
  next
    case (Inr u)
    with run assms(2) keys show ?thesis
      by (auto simp: initSearch_def)
  qed
qed

text \<open>
  Claim C4. \<open>sendReceipt\<close> empties the key array and fires the keys it held, so a second
  call fires nothing. In a run of \<open>initSearch\<close> whose search function uses the array only
  through \<open>sendReceipt\<close>, at most one receipt is fired, and its keys are exactly
  \<open>[taskId, task.imageId]\<close>.
\<close>

theorem sendReceipt_at_most_once:
  "sendReceipt (sendReceipt v) = sendReceipt v \<and>
   storageIds (sendReceipt v) = [] \<and>
   sent (sendReceipt v) =
     sent v @ (if storageIds v = [] then [] else [StorageReceipt (storageIds v)]) \<and>
   (receiptDiscipline searchFn \<and> storageRequest E taskId = Some task \<longrightarrow>
      receipts (sent (snd (initSearch E searchFn engine taskId w))) = receipts (sent w) \<or>
      receipts (sent (snd (initSearch E searchFn engine taskId w))) =
        receipts (sent w) @ [[taskId, imageId task]]) \<and>
   (storageRequest E taskId = None \<longrightarrow>
      receipts (sent (snd (initSearch E searchFn engine taskId w))) = receipts (sent w))"
proof -
  have "storageRequest E taskId = None \<Longrightarrow>
          receipts (sent (snd (initSearch E searchFn engine taskId w))) = receipts (sent w)"
    by (simp add: initSearch_def showEngineError_eq receipts_append)
  then show ?thesis
    using initSearch_receipts [of searchFn E taskId task engine w]
    by (simp add: sendReceipt_eq)
qed

theorem sendReceipt_at_most_once_witness:
  "receiptDiscipline (\<lambda>sess srch img v. (Inl (Error ''upload failed''), sendReceipt v)) \<and>
   storageRequest scenarioEnv ''t1'' = Some scenarioTask \<and>
   sendReceipt (emptyWorld\<lparr>storageIds := [''t1'', ''i1'']\<rparr>) =
     emptyWorld\<lparr>sent := [StorageReceipt [''t1'', ''i1'']]\<rparr> \<and>
   sendReceipt (sendReceipt (emptyWorld\<lparr>storageIds := [''t1'', ''i1'']\<rparr>)) =
     emptyWorld\<lparr>sent := [StorageReceipt [''t1'', ''i1'']]\<rparr> \<and>
   receipts (sent (snd (initSearch scenarioEnv
      (\<lambda>sess srch img v. (Inl (Error ''upload failed''), sendReceipt v))
      ''pinterest'' ''t1'' emptyWorld))) = [[''t1'', ''i1'']] \<and>
   storageRequest scenarioEnv ''t2'' = None \<and>
   receipts (sent (snd (initSearch scenarioEnv
      (\<lambda>sess srch img v. (Inl (Error ''upload failed''), sendReceipt v))
      ''pinterest'' ''t2'' emptyWorld))) = []"
proof -
  let ?f = "\<lambda>(sess::session) (srch::search_spec) (img::image) v.
              (Inl (Error ''upload failed'') :: js_error + unit, sendReceipt v)"
  have d: "receiptDiscipline ?f"
    by (simp add: receiptDiscipline_def)
  have t: "storageRequest scenarioEnv ''t1'' = Some scenarioTask"
    and n: "storageRequest scenarioEnv ''t2'' = None"
    by (simp_all add: scenarioEnv_def)
  have run: "receipts (sent (snd (initSearch scenarioEnv ?f ''pinterest'' ''t1'' emptyWorld))) =
      [[''t1'', ''i1'']]"
    by (simp add: initSearch_def initSearch_try_def initSearch_catch_def prepareImageForUpload_def
          showEngineError_eq sendReceipt_eq scenarioEnv_def scenarioTask_def scenarioImage_def
          emptyWorld_def Error_def Let_def)
  from sendReceipt_at_most_once
         [of "emptyWorld\<lparr>storageIds := [''t1'', ''i1'']\<rparr>" ?f scenarioEnv "''t1''" scenarioTask
            "''pinterest''" emptyWorld]
       sendReceipt_at_most_once
         [of "emptyWorld\<lparr>storageIds := [''t1'', ''i1'']\<rparr>" ?f scenarioEnv "''t2''" scenarioTask
            "''pinterest''" emptyWorld]
       d t n run
  show ?thesis
    by (simp add: emptyWorld_def sendReceipt_eq scenarioTask_def)
qed

end

